theory Spec2Isabelle
  imports Main
begin

section \<open>Exceptions\<close>

text \<open>
  The exceptions that the modelled code raises, as values.  A function that may raise
  returns \<open>error + 'a\<close>, with \<open>Inl\<close> for the exception.
\<close>

datatype error = FieldError | NameError | TypeError | NotImplementedError | SyntaxError

section \<open>UrlBase (core/models.py, lines 115-154)\<close>

text \<open>
  An attribute lookup \<^verbatim>\<open>self.get_url\<close> or \<^verbatim>\<open>self.get_url_path\<close> on an entity finds
  either the implementation inherited from \<^verbatim>\<open>UrlBase\<close> or the one the concrete class
  defines.  The inherited ones carry the function attribute \<^verbatim>\<open>dont_recurse\<close>
  (lines 137 and 151); a method of the concrete class is a fresh function without it.
  An override is represented by what it does when called on the entity: it returns a
  string or raises.
\<close>

datatype method_impl = Inherited | Overridden "error + string"

record url_entity =
  get_url_impl :: method_impl
  get_url_path_impl :: method_impl

text \<open>
  What the methods read from outside the repository: \<^verbatim>\<open>settings.WEBSITE_URL\<close> and the
  two functions of \<^verbatim>\<open>urllib.parse\<close>.  A parse result is the list of its six components.
\<close>

record url_env =
  WEBSITE_URL :: string
  urlparse :: "string \<Rightarrow> string list"
  urlunparse :: "string list \<Rightarrow> string"

fun hasattr_dont_recurse :: "method_impl \<Rightarrow> bool" where
  "hasattr_dont_recurse Inherited = True"
| "hasattr_dont_recurse (Overridden r) = False"

function get_url :: "url_env \<Rightarrow> url_entity \<Rightarrow> error + string"
  and get_url_path :: "url_env \<Rightarrow> url_entity \<Rightarrow> error + string" where
  "get_url env self =
     (if hasattr_dont_recurse (get_url_path_impl self) then Inl NotImplementedError
      else case (case get_url_path_impl self of
                   Inherited \<Rightarrow> get_url_path env self
                 | Overridden r \<Rightarrow> r) of
             Inl e \<Rightarrow> Inl e
           | Inr path \<Rightarrow> Inr (WEBSITE_URL env @ path))"
| "get_url_path env self =
     (if hasattr_dont_recurse (get_url_impl self) then Inl NotImplementedError
      else case (case get_url_impl self of
                   Inherited \<Rightarrow> get_url env self
                 | Overridden r \<Rightarrow> r) of
             Inl e \<Rightarrow> Inl e
           | Inr url \<Rightarrow>
               (let bits = urlparse env url
                in Inr (urlunparse env ([[], []] @ drop 2 bits))))"
  by pat_completeness auto

text \<open>
  Neither recursive call can be reached: it would need the inherited implementation
  to lack the \<^verbatim>\<open>dont_recurse\<close> mark.
\<close>

termination
  by (relation "{}") auto

text \<open>
  Line 154 calls \<^verbatim>\<open>self.get_url()\<close>, which is the override when the entity has one.
\<close>

definition get_absolute_url :: "url_env \<Rightarrow> url_entity \<Rightarrow> error + string" where
  "get_absolute_url env self =
     (case get_url_impl self of
        Inherited \<Rightarrow> get_url env self
      | Overridden r \<Rightarrow> r)"


section \<open>Python values used by both mixins\<close>

text \<open>
  An argument that is a \<^verbatim>\<open>str\<close> or \<^verbatim>\<open>None\<close> is a \<open>string option\<close>.  Python's truth
  test takes \<^verbatim>\<open>None\<close> and the empty string as false and every other string as true;
  formatting a value inside an f-string gives the text \<^verbatim>\<open>None\<close> for \<^verbatim>\<open>None\<close>.
\<close>

fun truthy :: "string option \<Rightarrow> bool" where
  "truthy None = False"
| "truthy (Some s) = (s \<noteq> [])"

fun py_format :: "string option \<Rightarrow> string" where
  "py_format None = ''None''"
| "py_format (Some s) = s"

text \<open>\<^verbatim>\<open>sep.join(parts)\<close>.\<close>

fun str_join :: "string \<Rightarrow> string list \<Rightarrow> string" where
  "str_join sep [] = []"
| "str_join sep [x] = x"
| "str_join sep (x # y # ys) = x @ sep @ str_join sep (y # ys)"

text \<open>\<^verbatim>\<open>s.startswith(sub)\<close> and \<^verbatim>\<open>sub in s\<close>, used to state what a fragment contains.\<close>

fun startswith :: "string \<Rightarrow> string \<Rightarrow> bool" where
  "startswith s [] = True"
| "startswith [] (c # cs) = False"
| "startswith (x # xs) (c # cs) = (x = c \<and> startswith xs cs)"

fun contains_str :: "string \<Rightarrow> string \<Rightarrow> bool" where
  "contains_str [] sub = (sub = [])"
| "contains_str (x # xs) sub = (startswith (x # xs) sub \<or> contains_str xs sub)"

section \<open>MetaTagsBase (core/models.py, lines 69-112)\<close>

record meta_tags =
  meta_keywords :: string
  meta_description :: string
  meta_author :: string
  meta_copyright :: string

text \<open>
  \<^verbatim>\<open>get_meta_field\<close> renders the template \<^verbatim>\<open>core/includes/meta_field.html\<close> with the
  name and the content.  The template is not part of the sources, so the rendering is
  a parameter \<open>render_to_string\<close> of the methods.  \<^verbatim>\<open>mark_safe\<close> keeps the text and only
  marks it as safe for output.
\<close>

definition mark_safe :: "string \<Rightarrow> string" where
  "mark_safe s = s"

definition get_meta_field ::
  "(string \<Rightarrow> string \<Rightarrow> string) \<Rightarrow> string option \<Rightarrow> string option \<Rightarrow> string" where
  "get_meta_field render_to_string name content =
     (let tag = [];
          tag = (if truthy name \<and> truthy content
                 then render_to_string (py_format name) (py_format content)
                 else tag)
      in mark_safe tag)"

definition get_meta_keywords :: "(string \<Rightarrow> string \<Rightarrow> string) \<Rightarrow> meta_tags \<Rightarrow> string" where
  "get_meta_keywords render_to_string self =
     get_meta_field render_to_string (Some ''keywords'') (Some (meta_keywords self))"

definition get_meta_description :: "(string \<Rightarrow> string \<Rightarrow> string) \<Rightarrow> meta_tags \<Rightarrow> string" where
  "get_meta_description render_to_string self =
     get_meta_field render_to_string (Some ''description'') (Some (meta_description self))"

definition get_meta_author :: "(string \<Rightarrow> string \<Rightarrow> string) \<Rightarrow> meta_tags \<Rightarrow> string" where
  "get_meta_author render_to_string self =
     get_meta_field render_to_string (Some ''author'') (Some (meta_author self))"

definition get_meta_copyright :: "(string \<Rightarrow> string \<Rightarrow> string) \<Rightarrow> meta_tags \<Rightarrow> string" where
  "get_meta_copyright render_to_string self =
     get_meta_field render_to_string (Some ''copyright'') (Some (meta_copyright self))"

text \<open>
  Line 110 of \<^verbatim>\<open>get_meta_tafs\<close> is \<^verbatim>\<open>self.meta_author()\<close>: it calls the value of the
  text attribute.  Calling a \<^verbatim>\<open>str\<close> raises \<^verbatim>\<open>TypeError\<close>, whatever the string is.
\<close>

definition call_str :: "string \<Rightarrow> error + string" where
  "call_str s = Inl TypeError"

text \<open>
  The elements of the tuple are evaluated from left to right, so the two renderers
  before line 110 run first, and \<^verbatim>\<open>get_meta_copyright\<close> and the join only after the
  call of line 110 has returned.
\<close>

definition get_meta_tafs :: "(string \<Rightarrow> string \<Rightarrow> string) \<Rightarrow> meta_tags \<Rightarrow> error + string" where
  "get_meta_tafs render_to_string self =
     (let keywords = get_meta_keywords render_to_string self;
          description = get_meta_description render_to_string self
      in case call_str (meta_author self) of
           Inl e \<Rightarrow> Inl e
         | Inr author \<Rightarrow>
             Inr (mark_safe (str_join [CHR 0x0A]
                    [keywords, description, author, get_meta_copyright render_to_string self])))"

text \<open>
  Modelled from the spec: the template \<^verbatim>\<open>core/includes/meta_field.html\<close> is missing from
  the sources.  The spec describes its output as a standard key/value presentational
  fragment with the content value escaped for safe embedding; here that is a \<^verbatim>\<open>meta\<close>
  element whose \<^verbatim>\<open>content\<close> attribute holds the escaped content.
\<close>

fun escape_char :: "char \<Rightarrow> string" where
  "escape_char c =
     (if c = CHR ''&'' then ''&amp;''
      else if c = CHR ''<'' then ''&lt;''
      else if c = CHR ''>'' then ''&gt;''
      else if c = CHR 0x22 then ''&quot;''
      else if c = CHR 0x27 then ''&#x27;''
      else [c])"

definition escape :: "string \<Rightarrow> string" where
  "escape s = concat (map escape_char s)"

definition meta_field_html :: "string \<Rightarrow> string \<Rightarrow> string" where
  "meta_field_html name content =
     ''<meta name='' @ [CHR 0x22] @ name @ [CHR 0x22] @ '' content='' @ [CHR 0x22]
       @ escape content @ [CHR 0x22] @ '' />''"


section \<open>object_relation_base_factory (core/models.py, lines 12-66)\<close>

text \<open>
  The arguments of a call.  A restriction such as
  \<^verbatim>\<open>{"model__in": ("user", "group")}\<close> is an association list; an absent argument is
  \<open>None\<close>.
\<close>

type_synonym choices = "(string \<times> string list) list"

record factory_args =
  prefix :: "string option"
  prefix_verbose :: "string option"
  add_related_name :: bool
  limit_content_type_choices_to :: "choices option"
  is_required :: bool

definition default_args :: factory_args where
  "default_args =
     \<lparr>prefix = None, prefix_verbose = None, add_related_name = False,
      limit_content_type_choices_to = None, is_required = False\<rparr>"

text \<open>The two calls of ideas/models.py, lines 9 and 12-20.\<close>

definition FavoriteObjectBase_args :: factory_args where
  "FavoriteObjectBase_args = default_args\<lparr>is_required := True\<rparr>"

definition OwnerBase_args :: factory_args where
  "OwnerBase_args =
     default_args\<lparr>prefix := Some ''owner'', prefix_verbose := Some ''Owner'',
       is_required := True, add_related_name := True,
       limit_content_type_choices_to := Some [(''model__in'', [''user'', ''group''])]\<rparr>"

text \<open>
  The fields that the class body builds.  The help texts and \<^verbatim>\<open>on_delete\<close> are
  constants of the source and are left out; the target of the foreign key is always
  \<^verbatim>\<open>ContentType\<close>.
\<close>

datatype field =
    ForeignKey (fk_verbose_name: string) (fk_related_name: "string option")
      (blank: bool) (null: bool) (fk_limit_choices_to: "choices option")
  | CharField (char_verbose_name: "string option") (blank: bool) (null: bool)
      (max_length: nat) (default_value: string)
  | GenericForeignKey (ct_field: string) (fk_field: string)

text \<open>
  What a call is meant to give back: a model class, abstract or not, with the fields
  registered under their names.
\<close>

record model_class =
  cls_abstract :: bool
  cls_fields :: "(string \<times> field) list"

text \<open>
  The shape of the definition, lines 12-66: each statement with its line, and the blocks
  as the indentation makes them.  Line 14 is the docstring.  Lines 41-66 are all
  indented into the body of \<^verbatim>\<open>TheClass\<close>, the \<^verbatim>\<open>return\<close> of line 66 included.
\<close>

datatype stmt =
    Simple nat
  | Raise nat
  | Return nat
  | If nat "stmt list" "stmt list"
  | ClassDef nat "stmt list"
  | FunctionDef nat "stmt list"

definition factory_source :: stmt where
  "factory_source =
     FunctionDef 12
       [Simple 14, Simple 31,
        If 32 [Simple 33, Simple 34, Simple 35, Simple 36, Simple 37, Simple 38] [],
        ClassDef 40
          [ClassDef 41 [Simple 42],
           If 44 [If 45 [Raise 46] [], Simple 47] [Simple 49],
           Simple 51, Simple 52, Simple 53, Simple 57, Simple 58, Simple 61,
           Simple 62, Simple 63, Simple 64,
           Return 66]]"

text \<open>
  The compiler accepts a \<^verbatim>\<open>return\<close> only where the innermost enclosing scope is a
  function body.  A class body is a scope of its own, an \<^verbatim>\<open>if\<close> is not.  The flag says
  whether the statement stands in a function body.
\<close>

fun return_outside_function :: "bool \<Rightarrow> stmt \<Rightarrow> bool"
  and return_outside_function_block :: "bool \<Rightarrow> stmt list \<Rightarrow> bool" where
  "return_outside_function inside (Simple l) = False"
| "return_outside_function inside (Raise l) = False"
| "return_outside_function inside (Return l) = (\<not> inside)"
| "return_outside_function inside (If l body orelse) =
     (return_outside_function_block inside body \<or> return_outside_function_block inside orelse)"
| "return_outside_function inside (ClassDef l body) = return_outside_function_block False body"
| "return_outside_function inside (FunctionDef l body) = return_outside_function_block True body"
| "return_outside_function_block inside [] = False"
| "return_outside_function_block inside (s # ss) =
     (return_outside_function inside s \<or> return_outside_function_block inside ss)"

text \<open>
  Compiling a definition that stands at the top of a module: a misplaced \<^verbatim>\<open>return\<close> is
  a \<^verbatim>\<open>SyntaxError\<close>, raised when the module is imported, before any statement runs.
\<close>

definition compile_def :: "stmt \<Rightarrow> error + unit" where
  "compile_def s = (if return_outside_function False s then Inl SyntaxError else Inr ())"

text \<open>
  The local variables of the function when the \<^verbatim>\<open>class\<close> statement of line 40 starts.
  A variable that has not been assigned is \<open>None\<close>, and reading it raises \<^verbatim>\<open>NameError\<close>.
  Lines 33 to 38 are all inside \<^verbatim>\<open>if prefix:\<close>, so the three field names are assigned
  only when a prefix is given.
\<close>

record frame =
  v_p :: string
  v_prefix_verbose :: "string option"
  v_limit_content_type_choices_to :: "choices option"
  v_content_type_field :: "string option"
  v_object_id_field :: "string option"
  v_content_object_field :: "string option"

text \<open>Lines 31-38.  \<^verbatim>\<open>_\<close> (gettext) is taken as the identity on its message.\<close>

definition function_frame :: "factory_args \<Rightarrow> frame" where
  "function_frame a =
     (if truthy (prefix a) then
        (let p = py_format (prefix a) @ ''_''
         in \<lparr>v_p = p,
             v_prefix_verbose =
               (if truthy (prefix_verbose a) then prefix_verbose a else Some ''Related object''),
             v_limit_content_type_choices_to =
               (case limit_content_type_choices_to a of
                  None \<Rightarrow> Some []
                | Some d \<Rightarrow> if d \<noteq> [] then Some d else Some []),
             v_content_type_field = Some (p @ ''content_type''),
             v_object_id_field = Some (p @ ''object_id''),
             v_content_object_field = Some (p @ ''content_object'')\<rparr>)
      else
        \<lparr>v_p = [],
         v_prefix_verbose = prefix_verbose a,
         v_limit_content_type_choices_to = limit_content_type_choices_to a,
         v_content_type_field = None,
         v_object_id_field = None,
         v_content_object_field = None\<rparr>)"

text \<open>
  The statements of the class body, in order, split at the places where one can raise.

  Lines 41-60: the attributes assigned up to \<^verbatim>\<open>object_id\<close>.
\<close>

record class_namespace =
  ns_abstract :: bool
  ns_related_name :: "string option"
  ns_optional :: bool
  ns_ct_verbose_name :: string
  ns_content_type :: field
  ns_fk_verbose_name :: "string option"
  ns_object_id :: field

definition class_body_fields :: "factory_args \<Rightarrow> frame \<Rightarrow> error + class_namespace" where
  "class_body_fields a fr =
     (case (if add_related_name a
            then (if \<not> truthy (prefix a) then Inl FieldError else Inr (prefix a))
            else Inr None) of
        Inl e \<Rightarrow> Inl e
      | Inr related_name \<Rightarrow>
          (let optional = \<not> is_required a;
               ct_verbose_name = py_format (v_prefix_verbose fr) @ [CHR 0x27] @ ''s type (model)'';
               content_type =
                 ForeignKey ct_verbose_name related_name optional optional
                   (v_limit_content_type_choices_to fr);
               fk_verbose_name = v_prefix_verbose fr;
               object_id = CharField fk_verbose_name optional False 255 []
           in Inr \<lparr>ns_abstract = True, ns_related_name = related_name,
                   ns_optional = optional, ns_ct_verbose_name = ct_verbose_name,
                   ns_content_type = content_type, ns_fk_verbose_name = fk_verbose_name,
                   ns_object_id = object_id\<rparr>))"

text \<open>Line 61 reads the two field names from the function's variables.\<close>

definition class_body_content_object :: "frame \<Rightarrow> error + field" where
  "class_body_content_object fr =
     (case v_content_type_field fr of
        None \<Rightarrow> Inl NameError
      | Some ct \<Rightarrow>
          (case v_object_id_field fr of
             None \<Rightarrow> Inl NameError
           | Some fk \<Rightarrow> Inr (GenericForeignKey ct fk)))"

text \<open>
  Line 62 starts by reading \<^verbatim>\<open>TheClass\<close>.  The \<^verbatim>\<open>class\<close> statement assigns that name only
  once its body has finished, so inside the body the name is unassigned and the read
  raises \<^verbatim>\<open>NameError\<close>.  Statement by statement the class body therefore never
  finishes: it stops with the exception of line 46, of line 61 or of line 62, and
  lines 63-64 are not reached.
\<close>

definition TheClass_body :: "factory_args \<Rightarrow> frame \<Rightarrow> error" where
  "TheClass_body a fr =
     (case class_body_fields a fr of
        Inl e \<Rightarrow> e
      | Inr ns \<Rightarrow>
          (case class_body_content_object fr of
             Inl e \<Rightarrow> e
           | Inr content_object \<Rightarrow> NameError))"

text \<open>
  A call of the factory.  The definition has to be compiled before it can be called.
  As the source stands the compiler rejects it, so the body is never run; the second
  branch says what the statements would do were the definition accepted.
\<close>

definition object_relation_base_factory :: "factory_args \<Rightarrow> error + model_class" where
  "object_relation_base_factory a =
     (case compile_def factory_source of
        Inl e \<Rightarrow> Inl e
      | Inr u \<Rightarrow> Inl (TheClass_body a (function_frame a)))"

section \<open>Concrete inputs\<close>

text \<open>An instance of \<^verbatim>\<open>MetaTagsBase\<close> with all four attributes blank.\<close>

definition blank_meta_tags :: meta_tags where
  "blank_meta_tags =
     \<lparr>meta_keywords = [], meta_description = [], meta_author = [], meta_copyright = []\<rparr>"

text \<open>
  A site served at \<^verbatim>\<open>http://127.0.0.1:8000\<close>.  Its parser takes the whole text as the
  path component, which is what \<^verbatim>\<open>urlparse\<close> does with a text that starts with a slash
  and has no query or fragment.
\<close>

definition example_env :: url_env where
  "example_env =
     \<lparr>WEBSITE_URL = ''http://127.0.0.1:8000'',
      urlparse = (\<lambda>url. [[], [], url, [], [], []]),
      urlunparse = concat\<rparr>"

text \<open>An entity that defines neither method, and one that defines only \<^verbatim>\<open>get_url_path\<close>.\<close>

definition bare_entity :: url_entity where
  "bare_entity = \<lparr>get_url_impl = Inherited, get_url_path_impl = Inherited\<rparr>"

definition path_entity :: "string \<Rightarrow> url_entity" where
  "path_entity path = \<lparr>get_url_impl = Inherited, get_url_path_impl = Overridden (Inr path)\<rparr>"


section \<open>UrlBase: the recursion guard\<close>

text \<open>
  C5. An entity that overrides neither \<^verbatim>\<open>get_url\<close> nor \<^verbatim>\<open>get_url_path\<close>: both
  \<^verbatim>\<open>get_absolute_url()\<close> and \<^verbatim>\<open>get_url_path()\<close> return, and what they return is the
  exception \<^verbatim>\<open>NotImplementedError\<close>.  Both functions are total (their termination is
  proved with the empty call relation), so neither call recurses without end.
\<close>

theorem get_url_not_implemented:
  assumes "get_url_impl self = Inherited" and "get_url_path_impl self = Inherited"
  shows "get_absolute_url env self = Inl NotImplementedError
         \<and> get_url_path env self = Inl NotImplementedError"
  using assms by (simp add: get_absolute_url_def)

theorem get_url_not_implemented_witness:
  "get_url_impl bare_entity = Inherited \<and> get_url_path_impl bare_entity = Inherited
   \<and> get_absolute_url example_env bare_entity = Inl NotImplementedError
   \<and> get_url_path example_env bare_entity = Inl NotImplementedError"
proof -
  have a: "get_url_impl bare_entity = Inherited"
    by (simp add: bare_entity_def)
  have b: "get_url_path_impl bare_entity = Inherited"
    by (simp add: bare_entity_def)
  show ?thesis
    using a b get_url_not_implemented [OF a b, of example_env] by simp
qed

text \<open>
  C6. An entity that overrides only \<^verbatim>\<open>get_url_path\<close>, whose override returns \<open>path\<close>:
  \<^verbatim>\<open>get_absolute_url()\<close> returns the site's base URL followed by \<open>path\<close>.  The witness
  takes the path \<^verbatim>\<open>/ideas/1/\<close>.
\<close>

theorem get_absolute_url_from_path:
  assumes "get_url_impl self = Inherited"
    and "get_url_path_impl self = Overridden (Inr path)"
  shows "get_absolute_url env self = Inr (WEBSITE_URL env @ path)"
  using assms by (simp add: get_absolute_url_def)

theorem get_absolute_url_from_path_witness:
  "get_url_impl (path_entity ''/ideas/1/'') = Inherited
   \<and> get_url_path_impl (path_entity ''/ideas/1/'') = Overridden (Inr ''/ideas/1/'')
   \<and> get_absolute_url example_env (path_entity ''/ideas/1/'')
       = Inr (WEBSITE_URL example_env @ ''/ideas/1/'')
   \<and> WEBSITE_URL example_env @ ''/ideas/1/'' = ''http://127.0.0.1:8000/ideas/1/''"
proof -
  have a: "get_url_impl (path_entity ''/ideas/1/'') = Inherited"
    by (simp add: path_entity_def)
  have b: "get_url_path_impl (path_entity ''/ideas/1/'') = Overridden (Inr ''/ideas/1/'')"
    by (simp add: path_entity_def)
  have c: "WEBSITE_URL example_env @ ''/ideas/1/'' = ''http://127.0.0.1:8000/ideas/1/''"
    by (simp add: example_env_def)
  show ?thesis
    using a b c get_absolute_url_from_path [OF a b, of example_env] by simp
qed

section \<open>MetaTagsBase: the renderers\<close>

text \<open>
  C10. \<^verbatim>\<open>get_meta_field(name, content)\<close> returns a non-empty fragment only when both the
  name and the content are non-blank; with a blank name (\<^verbatim>\<open>None\<close> or the empty string)
  the result is empty, whatever the content is.
\<close>

theorem get_meta_field_blank:
  "(get_meta_field render_to_string name content \<noteq> [] \<longrightarrow> truthy name \<and> truthy content)
   \<and> (\<not> truthy name \<longrightarrow> get_meta_field render_to_string name content = [])"
  by (simp add: get_meta_field_def mark_safe_def)

theorem get_meta_field_blank_witness:
  "get_meta_field meta_field_html (Some ''keywords'') (Some ''a,b'') \<noteq> []
   \<and> truthy (Some ''keywords'') \<and> truthy (Some ''a,b'')
   \<and> \<not> truthy (Some []) \<and> get_meta_field meta_field_html (Some []) (Some ''a,b'') = []
   \<and> \<not> truthy None \<and> get_meta_field meta_field_html None (Some ''a,b'') = []"
proof -
  have a: "get_meta_field meta_field_html (Some ''keywords'') (Some ''a,b'') \<noteq> []"
    by (simp add: get_meta_field_def mark_safe_def meta_field_html_def)
  have b: "\<not> truthy (Some [])" and c: "\<not> truthy None"
    by simp_all
  show ?thesis
    using a b c
      get_meta_field_blank [of meta_field_html "Some ''keywords''" "Some ''a,b''"]
      get_meta_field_blank [of meta_field_html "Some []" "Some ''a,b''"]
      get_meta_field_blank [of meta_field_html None "Some ''a,b''"]
    by simp
qed

text \<open>
  C3. The claim is that the aggregate renderer calls the four per-field renderers and
  joins their fragments with newlines.  The code calls the attribute \<^verbatim>\<open>meta_author\<close>
  itself at line 110, so for every instance and every template \<^verbatim>\<open>get_meta_tafs\<close> raises
  \<^verbatim>\<open>TypeError\<close> and joins nothing.
\<close>

theorem get_meta_tafs_raises:
  "get_meta_tafs render_to_string self = Inl TypeError"
  by (simp add: get_meta_tafs_def call_str_def)

text \<open>
  C4. The claim is that the aggregate rendering of a blank instance is the empty string
  and that of an instance with only the keywords \<^verbatim>\<open>a,b\<close> holds one non-empty fragment.
  For both instances \<^verbatim>\<open>get_meta_tafs\<close> raises \<^verbatim>\<open>TypeError\<close> at line 110 and returns
  no text at all.
\<close>

theorem get_meta_tafs_blank_raises:
  "get_meta_tafs render_to_string blank_meta_tags = Inl TypeError
   \<and> get_meta_tafs render_to_string (blank_meta_tags\<lparr>meta_keywords := ''a,b''\<rparr>)
       = Inl TypeError"
  by (simp add: get_meta_tafs_def call_str_def)

text \<open>
  The per-field renderers themselves give what the claim expects of the fragments:
  all empty for the blank instance, and only the keywords fragment for the other.
\<close>

lemma per_field_fragments:
  "get_meta_keywords render_to_string blank_meta_tags = []
   \<and> get_meta_description render_to_string blank_meta_tags = []
   \<and> get_meta_author render_to_string blank_meta_tags = []
   \<and> get_meta_copyright render_to_string blank_meta_tags = []
   \<and> [get_meta_keywords render_to_string (blank_meta_tags\<lparr>meta_keywords := ''a,b''\<rparr>),
       get_meta_description render_to_string (blank_meta_tags\<lparr>meta_keywords := ''a,b''\<rparr>),
       get_meta_author render_to_string (blank_meta_tags\<lparr>meta_keywords := ''a,b''\<rparr>),
       get_meta_copyright render_to_string (blank_meta_tags\<lparr>meta_keywords := ''a,b''\<rparr>)]
      = [render_to_string ''keywords'' ''a,b'', [], [], []]
   \<and> meta_field_html ''keywords'' ''a,b'' \<noteq> []
   \<and> contains_str (meta_field_html ''keywords'' ''a,b'') ''a,b''"
  by (simp add: get_meta_keywords_def get_meta_description_def get_meta_author_def
      get_meta_copyright_def get_meta_field_def mark_safe_def blank_meta_tags_def
      meta_field_html_def escape_def)

section \<open>The factory: what a call gives\<close>

text \<open>The compiler rejects the definition: line 66 is a \<^verbatim>\<open>return\<close> in a class body.\<close>

lemma factory_source_rejected: "compile_def factory_source = Inl SyntaxError"
  by (simp add: compile_def_def factory_source_def)

lemma factory_never_returns: "object_relation_base_factory a \<noteq> Inr cls"
  by (simp add: object_relation_base_factory_def split: sum.splits)

text \<open>
  C1. The claim is that every call, also one without a prefix, gives a fragment with the
  three named fields.  The call of ideas/models.py, line 9, has no prefix and gives no
  fragment.  The definition is rejected when the module is compiled; and statement by
  statement the class body stops at line 61 with \<^verbatim>\<open>NameError\<close>, because the three field
  names were never assigned.
\<close>

theorem FavoriteObjectBase_raises:
  "object_relation_base_factory FavoriteObjectBase_args = Inl SyntaxError
   \<and> TheClass_body FavoriteObjectBase_args (function_frame FavoriteObjectBase_args)
       = NameError"
proof
  show "object_relation_base_factory FavoriteObjectBase_args = Inl SyntaxError"
    by (simp add: object_relation_base_factory_def factory_source_rejected)
  show "TheClass_body FavoriteObjectBase_args (function_frame FavoriteObjectBase_args)
       = NameError"
    by (simp add: TheClass_body_def class_body_fields_def class_body_content_object_def
        function_frame_def FavoriteObjectBase_args_def default_args_def Let_def)
qed

text \<open>
  C2. The claim is about the six field names of two fragments mixed into one entity, as
  in \<^verbatim>\<open>Like\<close>.  Neither of the two calls that \<^verbatim>\<open>Like\<close> is built from gives a fragment:
  the definition is rejected when the module is compiled, and statement by statement
  the call with the prefix \<^verbatim>\<open>owner\<close> gets past line 61 and stops at line 62 with
  \<^verbatim>\<open>NameError\<close>, as the call without a prefix does at line 61.
\<close>

theorem Like_bases_raise:
  "object_relation_base_factory FavoriteObjectBase_args = Inl SyntaxError
   \<and> object_relation_base_factory OwnerBase_args = Inl SyntaxError
   \<and> class_body_content_object (function_frame FavoriteObjectBase_args) = Inl NameError
   \<and> class_body_content_object (function_frame OwnerBase_args)
       = Inr (GenericForeignKey ''owner_content_type'' ''owner_object_id'')
   \<and> TheClass_body OwnerBase_args (function_frame OwnerBase_args) = NameError"
proof -
  have a: "object_relation_base_factory FavoriteObjectBase_args = Inl SyntaxError"
    and b: "object_relation_base_factory OwnerBase_args = Inl SyntaxError"
    by (simp_all add: object_relation_base_factory_def factory_source_rejected)
  have c: "class_body_content_object (function_frame FavoriteObjectBase_args) = Inl NameError"
    by (simp add: class_body_content_object_def function_frame_def
        FavoriteObjectBase_args_def default_args_def)
  have d: "class_body_content_object (function_frame OwnerBase_args)
       = Inr (GenericForeignKey ''owner_content_type'' ''owner_object_id'')"
    by (simp add: class_body_content_object_def function_frame_def OwnerBase_args_def
        default_args_def Let_def)
  have e: "TheClass_body OwnerBase_args (function_frame OwnerBase_args) = NameError"
    unfolding TheClass_body_def d
    by (simp add: class_body_fields_def OwnerBase_args_def default_args_def Let_def)
  show ?thesis
    using a b c d e by simp
qed

text \<open>
  C7. The claim is that a call with \<^verbatim>\<open>add_related_name=True\<close> and an absent or empty
  prefix fails with the configuration error.  Lines 44-46 are written to raise
  \<^verbatim>\<open>FieldError\<close>, but they are never run: with the prefix absent and with the prefix
  empty, what the call fails with is the \<^verbatim>\<open>SyntaxError\<close> of the rejected definition.
\<close>

theorem related_name_call_rejected:
  "object_relation_base_factory (default_args\<lparr>add_related_name := True\<rparr>) = Inl SyntaxError
   \<and> object_relation_base_factory (default_args\<lparr>add_related_name := True, prefix := Some []\<rparr>)
       = Inl SyntaxError
   \<and> object_relation_base_factory (default_args\<lparr>add_related_name := True\<rparr>)
       \<noteq> Inl FieldError"
  by (simp add: object_relation_base_factory_def factory_source_rejected)

text \<open>
  C8. The claim is about the two physical fields and the resolved reference of the
  fragment of every call.  No call gives a fragment, so no call gives any field: every
  call fails with the \<^verbatim>\<open>SyntaxError\<close> of the rejected definition.
\<close>

theorem no_call_builds_fields:
  "object_relation_base_factory a = Inl SyntaxError"
  by (simp add: object_relation_base_factory_def factory_source_rejected)

text \<open>
  What lines 33-38 compute does keep two prefixed fragments apart: the three names end
  in different letters, and two different prefixes give different names of each kind.
\<close>

lemma names_ne:
  "x @ ''content_type'' \<noteq> y @ ''object_id''"
  "x @ ''content_type'' \<noteq> y @ ''content_object''"
  "x @ ''object_id'' \<noteq> y @ ''content_object''"
proof -
  have e: "last (z @ ''content_type'') = CHR ''e''" for z by simp
  have d: "last (z @ ''object_id'') = CHR ''d''" for z by simp
  have t: "last (z @ ''content_object'') = CHR ''t''" for z by simp
  show "x @ ''content_type'' \<noteq> y @ ''object_id''"
  proof
    assume "x @ ''content_type'' = y @ ''object_id''"
    then have "last (x @ ''content_type'') = last (y @ ''object_id'')" by (rule arg_cong)
    then show False unfolding e d by simp
  qed
  show "x @ ''content_type'' \<noteq> y @ ''content_object''"
  proof
    assume "x @ ''content_type'' = y @ ''content_object''"
    then have "last (x @ ''content_type'') = last (y @ ''content_object'')" by (rule arg_cong)
    then show False unfolding e t by simp
  qed
  show "x @ ''object_id'' \<noteq> y @ ''content_object''"
  proof
    assume "x @ ''object_id'' = y @ ''content_object''"
    then have "last (x @ ''object_id'') = last (y @ ''content_object'')" by (rule arg_cong)
    then show False unfolding d t by simp
  qed
qed

lemma frame_names:
  assumes "prefix a = Some x" and "x \<noteq> []"
  shows "v_content_type_field (function_frame a) = Some ((x @ ''_'') @ ''content_type'')"
    and "v_object_id_field (function_frame a) = Some ((x @ ''_'') @ ''object_id'')"
    and "v_content_object_field (function_frame a) = Some ((x @ ''_'') @ ''content_object'')"
  using assms by (simp_all add: function_frame_def Let_def)

lemma field_names_distinct:
  assumes "truthy (prefix a)" and "truthy (prefix b)" and "prefix a \<noteq> prefix b"
  shows "distinct [v_content_type_field (function_frame a),
                   v_object_id_field (function_frame a),
                   v_content_object_field (function_frame a),
                   v_content_type_field (function_frame b),
                   v_object_id_field (function_frame b),
                   v_content_object_field (function_frame b)]"
proof -
  obtain x y where xy: "prefix a = Some x" "x \<noteq> []" "prefix b = Some y" "y \<noteq> []" "x \<noteq> y"
    using assms by (cases "prefix a"; cases "prefix b") auto
  have n: "(x @ ''_'') @ s \<noteq> (y @ ''_'') @ s" for s
    using xy(5) by simp
  note ne = names_ne [of "x @ ''_''" "y @ ''_''"] names_ne [of "y @ ''_''" "x @ ''_''"]
    names_ne [of "x @ ''_''" "x @ ''_''"] names_ne [of "y @ ''_''" "y @ ''_''"]
  show ?thesis
    unfolding frame_names [OF xy(1,2)] frame_names [OF xy(3,4)]
    using ne n [of "''content_type''"] n [of "''object_id''"] n [of "''content_object''"]
    by (simp add: eq_commute)
qed

end
